theory Spec2Isabelle
  imports Complex_Main "HOL-Library.Word" "HOL-Library.AList"
begin

section \<open>DNS and DoH resolver speed testers: data model\<close>

text \<open>
  The development embeds the two testers of the repository, \<^verbatim>\<open>dns_ipv4.py\<close>
  (class \<^verbatim>\<open>DNSSpeedTester\<close>, plain UDP) and \<^verbatim>\<open>doh_ipv4.py\<close>
  (class \<^verbatim>\<open>DoHSpeedTester\<close>, DNS over HTTPS).

  \<^item> A Python \<^verbatim>\<open>str\<close> is a sequence of Unicode code points, so it is a list of
    naturals; \<^verbatim>\<open>len\<close> counts code points, not bytes.
  \<^item> \<^verbatim>\<open>bytes\<close> is a list of 8-bit words.
  \<^item> A Python \<^verbatim>\<open>int\<close> is an \<^typ>\<open>int\<close>.
  \<^item> A Python \<^verbatim>\<open>float\<close> that holds a latency is either a finite number, idealised
    as a \<^typ>\<open>real\<close> (no rounding or overflow), or \<^verbatim>\<open>float('inf')\<close>. The one
    underflow that changes a test of the code, that of the success rate, is written out
    in the section on IEEE doubles.
  \<^item> Every \<^verbatim>\<open>raise\<close> is a value: functions that can raise return
    \<open>exn + 'a\<close>, with \<open>Inl\<close> the exception.
\<close>

type_synonym str = "nat list"

type_synonym bytes = "8 word list"

datatype exn =
    StructError
  | UnicodeEncodeError
  | SocketTimeout
  | SocketError
  | ZeroDivisionError
  | StatisticsError
  | ValueError
  | Unexpected

definition str_of :: "string \<Rightarrow> str" where
  "str_of s = map of_char s"

section \<open>The query encoder of \<^verbatim>\<open>dns_ipv4.py\<close>\<close>

subsection \<open>Library functions the encoder calls\<close>

text \<open>
  \<^verbatim>\<open>domain.split('.')\<close>: a scan that closes the current piece at every dot; the
  empty string gives one empty piece, and \<open>k\<close> dots give \<open>k + 1\<close> pieces.
\<close>

fun split_acc :: "str \<Rightarrow> str \<Rightarrow> str list" where
  "split_acc cur [] = [cur]"
| "split_acc cur (c # cs) =
     (if c = 46 then cur # split_acc [] cs else split_acc (cur @ [c]) cs)"

definition split_dot :: "str \<Rightarrow> str list" where
  "split_dot domain = split_acc [] domain"

text \<open>
  \<^verbatim>\<open>struct.pack('!B', n)\<close>: one byte, \<^verbatim>\<open>struct.error\<close> when \<open>n\<close> is above 255
  (\<open>n\<close> is a length here, never negative). \<^verbatim>\<open>struct.pack('!H', v)\<close>: two bytes,
  high byte first; the encoder only packs constants, which fit 16 bits.
\<close>

definition pack_B :: "nat \<Rightarrow> exn + bytes" where
  "pack_B n = (if n \<le> 255 then Inr [of_nat n] else Inl StructError)"

definition pack_H :: "16 word \<Rightarrow> bytes" where
  "pack_H v = [ucast (drop_bit 8 v), ucast v]"

text \<open>
  \<^verbatim>\<open>part.encode()\<close>: UTF-8. A surrogate code point (D800 to DFFF) raises
  \<^verbatim>\<open>UnicodeEncodeError\<close>. A Python string holds no code point above 10FFFF.
\<close>

definition is_surrogate :: "nat \<Rightarrow> bool" where
  "is_surrogate c = (0xD800 \<le> c \<and> c \<le> 0xDFFF)"

definition utf8_char :: "nat \<Rightarrow> exn + bytes" where
  "utf8_char c =
     (if c < 0x80 then Inr [of_nat c]
      else if c < 0x800 then Inr [of_nat (0xC0 + c div 64), of_nat (0x80 + c mod 64)]
      else if is_surrogate c then Inl UnicodeEncodeError
      else if c < 0x10000 then
        Inr [of_nat (0xE0 + c div 4096), of_nat (0x80 + c div 64 mod 64),
             of_nat (0x80 + c mod 64)]
      else
        Inr [of_nat (0xF0 + c div 262144), of_nat (0x80 + c div 4096 mod 64),
             of_nat (0x80 + c div 64 mod 64), of_nat (0x80 + c mod 64)])"

fun str_encode :: "str \<Rightarrow> exn + bytes" where
  "str_encode [] = Inr []"
| "str_encode (c # cs) =
     (case utf8_char c of
        Inl e \<Rightarrow> Inl e
      | Inr b \<Rightarrow> (case str_encode cs of Inl e \<Rightarrow> Inl e | Inr bs \<Rightarrow> Inr (b @ bs)))"

subsection \<open>\<^verbatim>\<open>create_dns_query\<close>\<close>

text \<open>
  The loop \<^verbatim>\<open>for part in domain.split('.'): question += struct.pack('!B', len(part)) + part.encode()\<close>,
  with \<open>question\<close> the accumulator. The length is packed before the label is
  encoded, so an over-long label raises \<^verbatim>\<open>struct.error\<close> first.
\<close>

fun encode_labels :: "str list \<Rightarrow> bytes \<Rightarrow> exn + bytes" where
  "encode_labels [] question = Inr question"
| "encode_labels (part # parts) question =
     (case pack_B (length part) of
        Inl e \<Rightarrow> Inl e
      | Inr n \<Rightarrow>
         (case str_encode part of
            Inl e \<Rightarrow> Inl e
          | Inr b \<Rightarrow> encode_labels parts (question @ n @ b)))"

definition dns_header :: bytes where
  "dns_header = pack_H 0x1234 @ pack_H 0x0100 @ pack_H 1 @ pack_H 0 @ pack_H 0 @ pack_H 0"

definition create_dns_query :: "str \<Rightarrow> exn + bytes" where
  "create_dns_query domain =
     (case encode_labels (split_dot domain) [] of
        Inl e \<Rightarrow> Inl e
      | Inr question \<Rightarrow> Inr (dns_header @ question @ [0] @ pack_H 0x0001 @ pack_H 0x0001))"

subsection \<open>Reading a question section back\<close>

text \<open>
  The layout and the reader the specification's round-trip property speaks of ("each
  label prefixed by its single-byte length", "split on the length-prefix structure");
  they are not part of the repository. \<open>wire_labels\<close> is the layout of a list of
  one-byte-per-character labels; \<open>parse_name\<close> reads
  length-prefixed labels up to the first zero length byte and returns them with the
  bytes that follow; \<open>join_dot\<close> is \<^verbatim>\<open>'.'.join\<close>; \<open>read_question\<close> gives the
  domain name (each label byte read as one character) and the bytes after the name.
\<close>

definition wire_labels :: "str list \<Rightarrow> bytes" where
  "wire_labels ls = concat (map (\<lambda>l. of_nat (length l) # map of_nat l) ls)"

function parse_name :: "bytes \<Rightarrow> (bytes list \<times> bytes) option" where
  "parse_name [] = None"
| "parse_name (n # bs) =
     (if n = 0 then Some ([], bs)
      else if length bs < unat n then None
      else (case parse_name (drop (unat n) bs) of
              None \<Rightarrow> None
            | Some (ls, rest) \<Rightarrow> Some (take (unat n) bs # ls, rest)))"
  by pat_completeness auto
termination
  by (relation "measure length") auto

fun join_dot :: "str list \<Rightarrow> str" where
  "join_dot [] = []"
| "join_dot [p] = p"
| "join_dot (p # q # ps) = p @ 46 # join_dot (q # ps)"

definition read_question :: "bytes \<Rightarrow> (str \<times> bytes) option" where
  "read_question bs =
     (case parse_name bs of
        None \<Rightarrow> None
      | Some (ls, rest) \<Rightarrow> Some (join_dot (map (map unat) ls), rest))"

section \<open>Latencies and statistics\<close>

text \<open>
  A latency is a finite number of milliseconds or \<^verbatim>\<open>float('inf')\<close>. The order is the
  order of Python floats: \<^verbatim>\<open>inf\<close> is above every finite value.
\<close>

datatype pyfloat = Fin real | PInf

instantiation pyfloat :: linorder
begin

fun less_eq_pyfloat :: "pyfloat \<Rightarrow> pyfloat \<Rightarrow> bool" where
  "less_eq_pyfloat (Fin a) (Fin b) = (a \<le> b)"
| "less_eq_pyfloat (Fin a) PInf = True"
| "less_eq_pyfloat PInf (Fin b) = False"
| "less_eq_pyfloat PInf PInf = True"

definition less_pyfloat :: "pyfloat \<Rightarrow> pyfloat \<Rightarrow> bool" where
  "less_pyfloat x y = (x \<le> y \<and> \<not> y \<le> x)"

instance
proof
  fix x y z :: pyfloat
  show "(x < y) = (x \<le> y \<and> \<not> y \<le> x)" by (simp add: less_pyfloat_def)
  show "x \<le> x" by (cases x) auto
  show "x \<le> y \<Longrightarrow> y \<le> z \<Longrightarrow> x \<le> z" by (cases x; cases y; cases z) auto
  show "x \<le> y \<Longrightarrow> y \<le> x \<Longrightarrow> x = y" by (cases x; cases y) auto
  show "x \<le> y \<or> y \<le> x" by (cases x; cases y) auto
qed

end

text \<open>
  The dictionary with the keys \<^verbatim>\<open>'avg'\<close>, \<^verbatim>\<open>'min'\<close>, \<^verbatim>\<open>'max'\<close>,
  \<^verbatim>\<open>'median'\<close> and \<^verbatim>\<open>'success_rate'\<close> that both samplers return.
\<close>

record stats =
  avg :: pyfloat
  min_stat :: pyfloat
  max_stat :: pyfloat
  median :: pyfloat
  success_rate :: real

definition sentinel_stats :: stats where
  "sentinel_stats =
     \<lparr>avg = PInf, min_stat = PInf, max_stat = PInf, median = PInf, success_rate = 0\<rparr>"

subsection \<open>Library functions the samplers call\<close>

text \<open>
  \<^verbatim>\<open>statistics.mean\<close> (the exact sum over the count) and \<^verbatim>\<open>statistics.median\<close>
  (sort, then the middle element, or the mean of the two middle elements) raise
  \<^verbatim>\<open>StatisticsError\<close> on no data; the built-in \<^verbatim>\<open>min\<close> and \<^verbatim>\<open>max\<close> scan the
  list and raise \<^verbatim>\<open>ValueError\<close> on an empty one; \<^verbatim>\<open>/\<close> raises
  \<^verbatim>\<open>ZeroDivisionError\<close>.
\<close>

definition statistics_mean :: "real list \<Rightarrow> exn + real" where
  "statistics_mean data =
     (if data = [] then Inl StatisticsError else Inr (sum_list data / real (length data)))"

definition statistics_median :: "real list \<Rightarrow> exn + real" where
  "statistics_median data =
     (let s = sort data; n = length s in
      if n = 0 then Inl StatisticsError
      else if n mod 2 = 1 then Inr (s ! (n div 2))
      else Inr ((s ! (n div 2 - 1) + s ! (n div 2)) / 2))"

fun py_min :: "real list \<Rightarrow> exn + real" where
  "py_min [] = Inl ValueError"
| "py_min (x # xs) = Inr (foldl (\<lambda>m y. if y < m then y else m) x xs)"

fun py_max :: "real list \<Rightarrow> exn + real" where
  "py_max [] = Inl ValueError"
| "py_max (x # xs) = Inr (foldl (\<lambda>m y. if m < y then y else m) x xs)"

definition py_div :: "real \<Rightarrow> real \<Rightarrow> exn + real" where
  "py_div a b = (if b = 0 then Inl ZeroDivisionError else Inr (a / b))"

text \<open>
  The slice \<^verbatim>\<open>xs[:n]\<close>: the first \<open>n\<close> elements for \<open>n \<ge> 0\<close>, all but the last
  \<open>-n\<close> elements for \<open>n < 0\<close>.
\<close>

definition py_prefix :: "int \<Rightarrow> 'a list \<Rightarrow> 'a list" where
  "py_prefix n xs = (if 0 \<le> n then take (nat n) xs else take (length xs - nat (- n)) xs)"

section \<open>The probes\<close>

subsection \<open>\<^verbatim>\<open>test_dns_server\<close> (UDP)\<close>

text \<open>
  What the network does during one probe is a parameter: whether
  \<^verbatim>\<open>socket.socket\<close>, \<^verbatim>\<open>sendto\<close> and \<^verbatim>\<open>recvfrom\<close> raise, and what
  \<^verbatim>\<open>time.time()\<close> reads before the send and after the receive. The probe returns its
  result together with the state in which it leaves its socket. The query is built after
  the socket is created and inside the \<^verbatim>\<open>try\<close> block. \<^verbatim>\<open>settimeout\<close> with the
  fixed timeout does not raise and is left out.
\<close>

record udp_net =
  socket_raises :: "exn option"
  sendto_raises :: "bytes \<Rightarrow> str \<times> nat \<Rightarrow> exn option"
  recvfrom_raises :: "exn option"
  start_time :: real
  end_time :: real

datatype sock_state = NoSocket | SockOpen | SockClosed

text \<open>
  \<^verbatim>\<open>except (socket.timeout, socket.error)\<close>: these two give
  \<^verbatim>\<open>(server_name, float('inf'))\<close>; any other exception leaves the function.
\<close>

definition udp_except :: "str \<Rightarrow> exn \<Rightarrow> exn + str \<times> pyfloat" where
  "udp_except server_name e =
     (if e = SocketTimeout \<or> e = SocketError then Inr (server_name, PInf) else Inl e)"

definition test_dns_server ::
  "udp_net \<Rightarrow> str \<Rightarrow> str \<Rightarrow> str \<Rightarrow> (exn + str \<times> pyfloat) \<times> sock_state" where
  "test_dns_server net server_name server_ip domain =
     (case socket_raises net of
        Some e \<Rightarrow> (udp_except server_name e, NoSocket)
      | None \<Rightarrow>
         (case create_dns_query domain of
            Inl e \<Rightarrow> (udp_except server_name e, SockOpen)
          | Inr query \<Rightarrow>
             (case sendto_raises net query (server_ip, 53) of
                Some e \<Rightarrow> (udp_except server_name e, SockOpen)
              | None \<Rightarrow>
                 (case recvfrom_raises net of
                    Some e \<Rightarrow> (udp_except server_name e, SockOpen)
                  | None \<Rightarrow>
                     (Inr (server_name, Fin ((end_time net - start_time net) * 1000)),
                      SockClosed)))))"

subsection \<open>\<^verbatim>\<open>test_doh_server\<close> (HTTPS)\<close>

text \<open>
  \<^verbatim>\<open>build_dns_query\<close> delegates to the dnspython library
  (\<^verbatim>\<open>dns.message.make_query(domain, A).to_wire()\<close>), which is not part of the
  repository: it is a parameter, as are the outcomes of \<^verbatim>\<open>httpx.post\<close> and
  \<^verbatim>\<open>raise_for_status\<close>. The query is built before the \<^verbatim>\<open>try\<close>, so an exception
  of the library leaves the probe; \<^verbatim>\<open>except Exception\<close> turns every exception of the
  request into \<^verbatim>\<open>float("inf")\<close>.
\<close>

record doh_net =
  make_query :: "str \<Rightarrow> exn + bytes"
  post_raises :: "str \<Rightarrow> bytes \<Rightarrow> exn option"
  status_raises :: "exn option"
  start :: real
  finish :: real

definition build_dns_query :: "doh_net \<Rightarrow> str \<Rightarrow> exn + bytes" where
  "build_dns_query net domain = make_query net domain"

definition test_doh_server :: "doh_net \<Rightarrow> str \<Rightarrow> str \<Rightarrow> str \<Rightarrow> exn + pyfloat" where
  "test_doh_server net server_name url domain =
     (case build_dns_query net domain of
        Inl e \<Rightarrow> Inl e
      | Inr query \<Rightarrow>
         (case post_raises net url query of
            Some e \<Rightarrow> Inr PInf
          | None \<Rightarrow>
             (case status_raises net of
                Some e \<Rightarrow> Inr PInf
              | None \<Rightarrow> Inr (Fin ((finish net - start net) * 1000)))))"

section \<open>The samplers\<close>

text \<open>
  The loop of both samplers (\<^verbatim>\<open>dns_ipv4.py\<close> lines 224 to 227, \<^verbatim>\<open>doh_ipv4.py\<close>
  lines 82 to 85): probe each domain in turn and append the response time unless it is
  \<^verbatim>\<open>float('inf')\<close>. \<open>probe i domain\<close> is the outcome of the \<open>i\<close>-th probe of the
  loop; an exception of a probe leaves the loop.
\<close>

fun collect_times ::
  "(nat \<Rightarrow> str \<Rightarrow> exn + pyfloat) \<Rightarrow> nat \<Rightarrow> str list \<Rightarrow> real list \<Rightarrow> exn + real list" where
  "collect_times probe i [] results = Inr results"
| "collect_times probe i (domain # domains) results =
     (case probe i domain of
        Inl e \<Rightarrow> Inl e
      | Inr PInf \<Rightarrow> collect_times probe (Suc i) domains results
      | Inr (Fin response_time) \<Rightarrow>
          collect_times probe (Suc i) domains (results @ [response_time]))"

text \<open>
  The two \<^verbatim>\<open>return\<close> statements of both samplers (\<^verbatim>\<open>dns_ipv4.py\<close> lines 229 to
  244, \<^verbatim>\<open>doh_ipv4.py\<close> lines 87 to 102). The entries of the dictionary are evaluated
  in the order written.
\<close>

definition stats_of_results :: "real list \<Rightarrow> int \<Rightarrow> exn + stats" where
  "stats_of_results results num_queries =
     (if results = [] then Inr sentinel_stats
      else
        (case statistics_mean results of Inl e \<Rightarrow> Inl e | Inr a \<Rightarrow>
        (case py_min results of Inl e \<Rightarrow> Inl e | Inr lo \<Rightarrow>
        (case py_max results of Inl e \<Rightarrow> Inl e | Inr hi \<Rightarrow>
        (case statistics_median results of Inl e \<Rightarrow> Inl e | Inr med \<Rightarrow>
        (case py_div (real (length results)) (real_of_int num_queries) of
           Inl e \<Rightarrow> Inl e
         | Inr q \<Rightarrow>
             Inr \<lparr>avg = Fin a, min_stat = Fin lo, max_stat = Fin hi, median = Fin med,
                  success_rate = q * 100\<rparr>))))))"

text \<open>
  \<^verbatim>\<open>test_multiple_queries\<close> keeps the second component of what
  \<^verbatim>\<open>test_dns_server\<close> returns.
\<close>

definition udp_probe :: "(nat \<Rightarrow> udp_net) \<Rightarrow> str \<Rightarrow> str \<Rightarrow> nat \<Rightarrow> str \<Rightarrow> exn + pyfloat" where
  "udp_probe net server_name server_ip i domain =
     (case fst (test_dns_server (net i) server_name server_ip domain) of
        Inl e \<Rightarrow> Inl e
      | Inr (name, response_time) \<Rightarrow> Inr response_time)"

definition test_multiple_queries ::
  "(nat \<Rightarrow> udp_net) \<Rightarrow> str list \<Rightarrow> str \<Rightarrow> str \<Rightarrow> int \<Rightarrow> exn + stats" where
  "test_multiple_queries net test_domains server_name server_ip num_queries =
     (case collect_times (udp_probe net server_name server_ip) 0
             (py_prefix num_queries test_domains) [] of
        Inl e \<Rightarrow> Inl e
      | Inr results \<Rightarrow> stats_of_results results num_queries)"

definition doh_probe :: "(nat \<Rightarrow> doh_net) \<Rightarrow> str \<Rightarrow> str \<Rightarrow> nat \<Rightarrow> str \<Rightarrow> exn + pyfloat" where
  "doh_probe net name url i domain = test_doh_server (net i) name url domain"

definition test_server_on_domains ::
  "(nat \<Rightarrow> doh_net) \<Rightarrow> str list \<Rightarrow> str \<Rightarrow> str \<Rightarrow> int \<Rightarrow> exn + stats" where
  "test_server_on_domains net domains name url count =
     (case collect_times (doh_probe net name url) 0 (py_prefix count domains) [] of
        Inl e \<Rightarrow> Inl e
      | Inr times' \<Rightarrow> stats_of_results times' count)"

section \<open>The success rate in IEEE doubles\<close>

text \<open>
  Python computes \<^verbatim>\<open>len(results) / num_queries\<close> as the double nearest to the exact
  quotient. The samplers above take the exact quotient. Rounding changes one test of the
  code: a quotient of magnitude at most \<open>1 / 2 ^ 1075\<close> rounds to \<^verbatim>\<open>0.0\<close>, so
  a success rate can compare equal to 0 although a probe succeeded. The definitions below
  are the return statements and the samplers with this underflow written out (rounding
  to a non-zero double is still idealised); they are the ones to use where a success rate
  is compared with 0, and they agree with the samplers above for every count below
  \<open>2 ^ 1075\<close> in magnitude (\<open>samplers_ieee_agree\<close> below).
\<close>

definition underflow :: "real \<Rightarrow> real" where
  "underflow q = (if \<bar>q\<bar> \<le> 1 / 2 ^ 1075 then 0 else q)"

definition py_div_ieee :: "real \<Rightarrow> real \<Rightarrow> exn + real" where
  "py_div_ieee a b = (if b = 0 then Inl ZeroDivisionError else Inr (underflow (a / b)))"

definition stats_of_results_ieee :: "real list \<Rightarrow> int \<Rightarrow> exn + stats" where
  "stats_of_results_ieee results num_queries =
     (if results = [] then Inr sentinel_stats
      else
        (case statistics_mean results of Inl e \<Rightarrow> Inl e | Inr a \<Rightarrow>
        (case py_min results of Inl e \<Rightarrow> Inl e | Inr lo \<Rightarrow>
        (case py_max results of Inl e \<Rightarrow> Inl e | Inr hi \<Rightarrow>
        (case statistics_median results of Inl e \<Rightarrow> Inl e | Inr med \<Rightarrow>
        (case py_div_ieee (real (length results)) (real_of_int num_queries) of
           Inl e \<Rightarrow> Inl e
         | Inr q \<Rightarrow>
             Inr \<lparr>avg = Fin a, min_stat = Fin lo, max_stat = Fin hi, median = Fin med,
                  success_rate = q * 100\<rparr>))))))"

definition test_multiple_queries_ieee ::
  "(nat \<Rightarrow> udp_net) \<Rightarrow> str list \<Rightarrow> str \<Rightarrow> str \<Rightarrow> int \<Rightarrow> exn + stats" where
  "test_multiple_queries_ieee net test_domains server_name server_ip num_queries =
     (case collect_times (udp_probe net server_name server_ip) 0
             (py_prefix num_queries test_domains) [] of
        Inl e \<Rightarrow> Inl e
      | Inr results \<Rightarrow> stats_of_results_ieee results num_queries)"

definition test_server_on_domains_ieee ::
  "(nat \<Rightarrow> doh_net) \<Rightarrow> str list \<Rightarrow> str \<Rightarrow> str \<Rightarrow> int \<Rightarrow> exn + stats" where
  "test_server_on_domains_ieee net domains name url count =
     (case collect_times (doh_probe net name url) 0 (py_prefix count domains) [] of
        Inl e \<Rightarrow> Inl e
      | Inr times' \<Rightarrow> stats_of_results_ieee times' count)"

section \<open>The fleet testers\<close>

text \<open>
  \<^verbatim>\<open>results\<close> is a Python dictionary: an association list in insertion order, where
  assigning to a key that is present keeps its place (\<open>AList.update\<close>). The threads
  of the pool do not share state, so a run is determined by the order in which
  \<^verbatim>\<open>as_completed\<close> yields the submitted tasks: \<open>completed\<close> lists the servers in
  that order. \<open>net name\<close> is the network as the task of server \<open>name\<close> sees it.
  \<^verbatim>\<open>run_speed_test\<close> stores the sentinel when the task raised; \<^verbatim>\<open>run\<close> of
  \<^verbatim>\<open>doh_ipv4.py\<close> (\<open>run_doh\<close> here) only prints the error. The progress lines
  that both print and the size of the pool do not change the mapping and are left out.
\<close>

definition run_speed_test ::
  "(str \<Rightarrow> nat \<Rightarrow> udp_net) \<Rightarrow> str list \<Rightarrow> (str \<times> str) list \<Rightarrow> int \<Rightarrow> (str \<times> stats) list" where
  "run_speed_test net test_domains completed num_queries =
     foldl (\<lambda>results (server_name, server_ip).
              (case test_multiple_queries (net server_name) test_domains server_name server_ip
                      num_queries of
                 Inr result \<Rightarrow> AList.update server_name result results
               | Inl e \<Rightarrow> AList.update server_name sentinel_stats results))
       [] completed"

definition run_doh ::
  "(str \<Rightarrow> nat \<Rightarrow> doh_net) \<Rightarrow> str list \<Rightarrow> (str \<times> str) list \<Rightarrow> int \<Rightarrow> (str \<times> stats) list" where
  "run_doh net domains completed domain_count =
     foldl (\<lambda>results (name, url).
              (case test_server_on_domains (net name) domains name url domain_count of
                 Inr stats \<Rightarrow> AList.update name stats results
               | Inl e \<Rightarrow> results))
       [] completed"

section \<open>The report rankers\<close>

text \<open>
  What \<^verbatim>\<open>print_summary\<close> prints: the rows of the ranked table and the fastest server.
  \<^verbatim>\<open>sorted\<close> is stable, as \<open>sort_key\<close> is. The UDP ranker keeps the entries with a
  finite average and a positive success rate and prints at most ten rows; the DoH ranker
  keeps the entries with a finite average and prints them all.
\<close>

record report =
  table :: "(str \<times> stats) list"
  best :: "(str \<times> stats) option"

definition print_summary :: "(str \<times> stats) list \<Rightarrow> report" where
  "print_summary results =
     (let valid_results = filter (\<lambda>(k, v). avg v \<noteq> PInf \<and> success_rate v > 0) results in
      if valid_results = [] then \<lparr>table = [], best = None\<rparr>
      else
        (let sorted_results = sort_key (\<lambda>x. avg (snd x)) valid_results in
         \<lparr>table = take 10 sorted_results,
          best = (case sorted_results of [] \<Rightarrow> None | fastest # rest \<Rightarrow> Some fastest)\<rparr>))"

definition print_summary_doh :: "(str \<times> stats) list \<Rightarrow> report" where
  "print_summary_doh results =
     (let valid = filter (\<lambda>(k, v). avg v \<noteq> PInf) results;
          sorted_results = sort_key (\<lambda>x. avg (snd x)) valid in
      \<lparr>table = sorted_results,
       best = (case sorted_results of [] \<Rightarrow> None | b # rest \<Rightarrow> Some b)\<rparr>)"

section \<open>The specification's vocabulary\<close>

text \<open>
  The notions the specification states the samplers' contract with; none of them is part
  of the repository. \<open>first_n\<close> is "the first \<open>sample_count\<close> domains"; \<open>outcomes\<close>
  lists what each probe of a domain list gives; \<open>raised\<close> is the first exception among
  them, \<open>successful_times\<close> the elapsed times of the successful probes, in order;
  \<open>rank_median\<close> is the rank-based median, and \<open>spec_stats\<close> the statistics summary
  of section 4.3.
\<close>

definition first_n :: "int \<Rightarrow> 'a list \<Rightarrow> 'a list" where
  "first_n n xs = take (nat n) xs"

fun outcomes :: "(nat \<Rightarrow> str \<Rightarrow> exn + pyfloat) \<Rightarrow> nat \<Rightarrow> str list \<Rightarrow> (exn + pyfloat) list" where
  "outcomes probe i [] = []"
| "outcomes probe i (d # ds) = probe i d # outcomes probe (Suc i) ds"

fun raised :: "(exn + pyfloat) list \<Rightarrow> exn option" where
  "raised [] = None"
| "raised (Inl e # os) = Some e"
| "raised (Inr t # os) = raised os"

fun successful_times :: "(exn + pyfloat) list \<Rightarrow> real list" where
  "successful_times [] = []"
| "successful_times (Inr (Fin t) # os) = t # successful_times os"
| "successful_times (Inr PInf # os) = successful_times os"
| "successful_times (Inl e # os) = successful_times os"

definition rank_median :: "real list \<Rightarrow> real" where
  "rank_median ts =
     (if even (length ts)
      then (sort ts ! (length ts div 2 - 1) + sort ts ! (length ts div 2)) / 2
      else sort ts ! (length ts div 2))"

definition spec_stats :: "real list \<Rightarrow> int \<Rightarrow> stats" where
  "spec_stats ts sample_count =
     (if ts = [] then sentinel_stats
      else \<lparr>avg = Fin (sum_list ts / real (length ts)), min_stat = Fin (Min (set ts)),
            max_stat = Fin (Max (set ts)), median = Fin (rank_median ts),
            success_rate = real (length ts) / real_of_int sample_count * 100\<rparr>)"

section \<open>Example networks\<close>

text \<open>
  Concrete behaviours of the network for the scenarios of the specification: a UDP
  resolver that answers after \<open>ms\<close> milliseconds, one whose receive times out, a DoH
  resolver that answers after \<open>ms\<close> milliseconds and one whose request fails. The DoH
  examples build their query with the same wire encoding as the UDP tester.
\<close>

definition udp_answers :: "real \<Rightarrow> udp_net" where
  "udp_answers ms =
     \<lparr>socket_raises = None, sendto_raises = (\<lambda>query addr. None), recvfrom_raises = None,
      start_time = 0, end_time = ms / 1000\<rparr>"

definition udp_times_out :: udp_net where
  "udp_times_out =
     \<lparr>socket_raises = None, sendto_raises = (\<lambda>query addr. None),
      recvfrom_raises = Some SocketTimeout, start_time = 0, end_time = 2\<rparr>"

definition doh_answers :: "real \<Rightarrow> doh_net" where
  "doh_answers ms =
     \<lparr>make_query = create_dns_query, post_raises = (\<lambda>url query. None), status_raises = None,
      start = 0, finish = ms / 1000\<rparr>"

definition doh_fails :: doh_net where
  "doh_fails =
     \<lparr>make_query = create_dns_query, post_raises = (\<lambda>url query. Some SocketTimeout),
      status_raises = None, start = 0, finish = 3\<rparr>"

definition two_domains :: "str list" where
  "two_domains = [str_of ''baidu.com'', str_of ''bing.com'']"

text \<open>
  A UDP resolver whose \<^verbatim>\<open>sendto\<close> raises an exception that is not a socket error, a
  DoH resolver for which the query library raises, and a statistics record with a finite
  average and success rate 0.
\<close>

definition udp_faults :: udp_net where
  "udp_faults =
     \<lparr>socket_raises = None, sendto_raises = (\<lambda>query addr. Some Unexpected),
      recvfrom_raises = None, start_time = 0, end_time = 0\<rparr>"

definition doh_faults :: doh_net where
  "doh_faults =
     \<lparr>make_query = (\<lambda>domain. Inl Unexpected), post_raises = (\<lambda>url query. None),
      status_raises = None, start = 0, finish = 0\<rparr>"

definition finite_zero_rate :: stats where
  "finite_zero_rate =
     \<lparr>avg = Fin 5, min_stat = Fin 5, max_stat = Fin 5, median = Fin 5, success_rate = 0\<rparr>"

text \<open>
  A label of 256 characters, which \<^verbatim>\<open>struct.pack('!B', ...)\<close> refuses, and a count
  so large that two successes over it underflow.
\<close>

definition long_label :: str where
  "long_label = replicate 256 97"

definition huge_count :: int where
  "huge_count = 2 ^ 1080"

section \<open>Properties of the query encoder\<close>

lemma dns_header_bytes: "dns_header = [0x12, 0x34, 0x01, 0x00, 0x00, 0x01, 0, 0, 0, 0, 0, 0]"
  by (simp add: dns_header_def pack_H_def)

lemmas eval_codec = str_of_def split_dot_def create_dns_query_def pack_B_def pack_H_def
  utf8_char_def dns_header_bytes read_question_def wire_labels_def

lemma split_acc_not_Nil: "split_acc cur s \<noteq> []"
  by (induction s arbitrary: cur) auto

lemma join_split_acc: "join_dot (split_acc cur s) = cur @ s"
proof (induction s arbitrary: cur)
  case Nil then show ?case by simp
next
  case (Cons c cs)
  show ?case
  proof (cases "c = 46")
    case True
    obtain p ps where "split_acc [] cs = p # ps"
      using split_acc_not_Nil[of "[]" cs] by (cases "split_acc [] cs") auto
    with Cons[of "[]"] True show ?thesis by simp
  next
    case False with Cons[of "cur @ [c]"] show ?thesis by simp
  qed
qed

lemma split_acc_size:
  "length (concat (split_acc cur s)) + length (split_acc cur s) = Suc (length cur + length s)"
  by (induction s arbitrary: cur) auto

lemma str_encode_ascii: "\<forall>c\<in>set l. c < 128 \<Longrightarrow> str_encode l = Inr (map of_nat l)"
  by (induction l) (auto simp: utf8_char_def)

lemma encode_labels_ascii:
  "\<forall>l\<in>set ls. length l \<le> 255 \<and> (\<forall>c\<in>set l. c < 128) \<Longrightarrow>
   encode_labels ls q = Inr (q @ wire_labels ls)"
  by (induction ls arbitrary: q) (auto simp: wire_labels_def pack_B_def str_encode_ascii)

lemma unat_of_nat_ascii: "\<forall>c\<in>set l. c < 128 \<Longrightarrow> map unat (map (of_nat :: nat \<Rightarrow> 8 word) l) = l"
  by (induction l) (auto simp: unat_of_nat)

lemma parse_name_wire:
  "\<forall>l\<in>set ls. l \<noteq> [] \<and> length l \<le> 255 \<Longrightarrow>
   parse_name (wire_labels ls @ 0 # rest) = Some (map (map of_nat) ls, rest)"
proof (induction ls)
  case Nil then show ?case by (simp add: wire_labels_def)
next
  case (Cons l ls)
  then have l: "l \<noteq> []" "length l \<le> 255" by auto
  then have u: "unat (of_nat (length l) :: 8 word) = length l" by (simp add: unat_of_nat)
  have nz: "(of_nat (length l) :: 8 word) \<noteq> 0" using l u by (metis length_0_conv unat_0)
  have "wire_labels (l # ls) @ 0 # rest = of_nat (length l) # (map of_nat l @ (wire_labels ls @ 0 # rest))"
    by (simp add: wire_labels_def)
  then show ?case using Cons u nz by simp
qed

lemma split_acc_no_dot:
  "46 \<notin> set s \<Longrightarrow> split_acc cur s = [cur @ s]"
  by (induction s arbitrary: cur) auto










text \<open>
  Claim C1, as the code has it. For every domain whose labels are all non-empty, of at
  most 255 characters and ASCII, \<^verbatim>\<open>create_dns_query\<close> returns a message whose first
  12 bytes are the header (ID 0x1234, flags 0x0100, one question, no other records, big
  endian), followed by the labels, each after its one length byte, a zero byte, and type
  1 and class 1; reading the question section back on its length prefixes gives the
  domain again, with exactly type and class left over.
\<close>

theorem create_dns_query_wire_format:
  assumes "\<forall>l\<in>set (split_dot domain). l \<noteq> [] \<and> length l \<le> 255 \<and> (\<forall>c\<in>set l. c < 128)"
  shows "\<exists>bs. create_dns_query domain = Inr bs \<and>
           take 12 bs = [0x12, 0x34, 0x01, 0x00, 0x00, 0x01, 0, 0, 0, 0, 0, 0] \<and>
           drop 12 bs = wire_labels (split_dot domain) @ [0] @ [0, 1, 0, 1] \<and>
           read_question (drop 12 bs) = Some (domain, [0, 1, 0, 1])"
proof -
  let ?ls = "split_dot domain"
  have enc: "encode_labels ?ls [] = Inr (wire_labels ?ls)"
    using assms encode_labels_ascii[of ?ls "[]"] by simp
  have pn: "parse_name (wire_labels ?ls @ 0 # [0, 1, 0, 1]) = Some (map (map of_nat) ?ls, [0, 1, 0, 1])"
    using assms by (intro parse_name_wire) simp
  have "\<forall>l\<in>set ls. \<forall>c\<in>set l. c < 128 \<Longrightarrow>
        map (map unat) (map (map (of_nat :: nat \<Rightarrow> 8 word)) ls) = ls" for ls
    by (induction ls) (simp_all add: unat_of_nat_ascii del: map_map)
  then have m: "map (map unat) (map (map (of_nat :: nat \<Rightarrow> 8 word)) ?ls) = ?ls"
    using assms by blast
  have j: "join_dot ?ls = domain"
    by (simp add: split_dot_def join_split_acc)
  have q: "create_dns_query domain = Inr (dns_header @ wire_labels ?ls @ [0] @ [0, 1, 0, 1])"
    by (simp add: create_dns_query_def enc pack_H_def)
  have rq: "read_question (wire_labels ?ls @ [0] @ [0, 1, 0, 1]) = Some (domain, [0, 1, 0, 1])"
    using pn by (simp add: read_question_def m j del: map_map)
  show ?thesis
    unfolding q using rq by (simp add: dns_header_bytes)
qed


theorem create_dns_query_wire_format_witness:
  "\<exists>bs. create_dns_query (str_of ''ab.c'') = Inr bs \<and>
     take 12 bs = [0x12, 0x34, 0x01, 0x00, 0x00, 0x01, 0, 0, 0, 0, 0, 0] \<and>
     drop 12 bs = [2, 97, 98, 1, 99, 0, 0, 1, 0, 1] \<and>
     read_question (drop 12 bs) = Some (str_of ''ab.c'', [0, 1, 0, 1])"
  using create_dns_query_wire_format [of "str_of ''ab.c''"]
  by (simp add: str_of_def split_dot_def wire_labels_def)


text \<open>
  Claim C1 as stated, for every domain string, fails: for \<^verbatim>\<open>'a..b'\<close> the empty
  label is written as a zero length byte, which ends the name, so the question section
  reads back as \<^verbatim>\<open>'a'\<close>.
\<close>

theorem create_dns_query_empty_label_counterexample:
  "create_dns_query (str_of ''a..b'') =
     Inr [0x12, 0x34, 0x01, 0x00, 0x00, 0x01, 0, 0, 0, 0, 0, 0, 1, 97, 0, 1, 98, 0, 0, 1, 0, 1] \<and>
   read_question [1, 97, 0, 1, 98, 0, 0, 1, 0, 1] = Some (str_of ''a'', [1, 98, 0, 0, 1, 0, 1])"
  by (simp add: eval_codec)


text \<open>
  Two more inputs outside the amended claim: a label that is not ASCII is prefixed with
  its number of characters, not of bytes, so the section does not read back; a label of
  256 characters raises \<^verbatim>\<open>struct.error\<close>.
\<close>

lemma create_dns_query_non_ascii_example:
  "create_dns_query [233] =
     Inr [0x12, 0x34, 0x01, 0x00, 0x00, 0x01, 0, 0, 0, 0, 0, 0, 1, 0xC3, 0xA9, 0, 0, 1, 0, 1] \<and>
   read_question [1, 0xC3, 0xA9, 0, 0, 1, 0, 1] = None"
  by (simp add: eval_codec)


lemma create_dns_query_long_label_example:
  "create_dns_query (replicate 256 97) = Inl StructError"
  by (simp add: create_dns_query_def split_dot_def split_acc_no_dot pack_B_def)








text \<open>
  Claim C10. For every non-empty domain whose labels are ASCII and have at most 255
  characters, the query is 18 bytes longer than the domain has characters.
\<close>

theorem create_dns_query_length:
  assumes "domain \<noteq> []"
    and "\<forall>l\<in>set (split_dot domain). length l \<le> 255 \<and> (\<forall>c\<in>set l. c < 128)"
  shows "\<exists>bs. create_dns_query domain = Inr bs \<and> length bs = length domain + 18"
proof -
  let ?ls = "split_dot domain"
  have enc: "encode_labels ?ls [] = Inr (wire_labels ?ls)"
    using assms(2) encode_labels_ascii[of ?ls "[]"] by simp
  have "length (wire_labels ls) = length (concat ls) + length ls" for ls
    by (induction ls) (simp_all add: wire_labels_def)
  then have "length (wire_labels ?ls) = Suc (length domain)"
    using split_acc_size[of "[]" domain] by (simp add: split_dot_def)
  then show ?thesis
    by (simp add: create_dns_query_def enc pack_H_def dns_header_bytes)
qed

theorem create_dns_query_length_witness:
  "\<exists>bs. create_dns_query (str_of ''baidu.com'') = Inr bs \<and> length bs = 27"
  using create_dns_query_length [of "str_of ''baidu.com''"]
  by (simp add: str_of_def split_dot_def)

section \<open>Properties of the samplers\<close>

lemma collect_times_outcomes:
  "collect_times probe i ds acc =
     (case raised (outcomes probe i ds) of
        Some e \<Rightarrow> Inl e
      | None \<Rightarrow> Inr (acc @ successful_times (outcomes probe i ds)))"
proof (induction ds arbitrary: i acc)
  case Nil
  then show ?case by simp
next
  case (Cons d ds)
  show ?case
  proof (cases "probe i d")
    case (Inl e)
    then show ?thesis by simp
  next
    case (Inr t)
    then show ?thesis using Cons.IH by (cases t) (simp_all split: option.splits)
  qed
qed



lemma py_prefix_nonneg: "0 \<le> n \<Longrightarrow> py_prefix n xs = first_n n xs"
  by (simp add: py_prefix_def first_n_def)

lemma py_prefix_zero: "py_prefix 0 xs = []"
  by (simp add: py_prefix_def)

lemma foldl_min: "foldl (\<lambda>m y. if y < m then y else m) x xs = Min (insert x (set xs))"
proof (induction xs arbitrary: x)
  case Nil then show ?case by simp
next
  case (Cons y ys)
  have "Min (insert (if y < x then y else x) (set ys)) = Min (insert x (insert y (set ys)))"
    by (cases "set ys = {}") (auto simp: min_def)
  with Cons show ?case by simp
qed

lemma foldl_max: "foldl (\<lambda>m y. if m < y then y else m) x xs = Max (insert x (set xs))"
proof (induction xs arbitrary: x)
  case Nil then show ?case by simp
next
  case (Cons y ys)
  have "Max (insert (if x < y then y else x) (set ys)) = Max (insert x (insert y (set ys)))"
    by (cases "set ys = {}") (auto simp: max_def)
  with Cons show ?case by simp
qed

lemma py_min_Min: "ts \<noteq> [] \<Longrightarrow> py_min ts = Inr (Min (set ts))"
  by (cases ts) (simp_all add: foldl_min)

lemma py_max_Max: "ts \<noteq> [] \<Longrightarrow> py_max ts = Inr (Max (set ts))"
  by (cases ts) (simp_all add: foldl_max)

lemma sort_eq_Nil: "sort ts = [] \<longleftrightarrow> ts = []"
  by (metis length_sort length_0_conv)

lemma statistics_median_rank: "ts \<noteq> [] \<Longrightarrow> statistics_median ts = Inr (rank_median ts)"
  by (auto simp: statistics_median_def rank_median_def Let_def odd_iff_mod_2_eq_one sort_eq_Nil)

lemma stats_of_results_spec:
  "ts = [] \<or> n \<noteq> 0 \<Longrightarrow> stats_of_results ts n = Inr (spec_stats ts n)"
  by (auto simp: stats_of_results_def spec_stats_def statistics_mean_def py_min_Min py_max_Max
      statistics_median_rank py_div_def)

text \<open>
  The division of \<open>stats_of_results\<close> raises for a non-empty list and count 0; the
  samplers never call it so (\<open>sampler_body\<close> below).
\<close>

lemma stats_of_results_zero:
  "ts \<noteq> [] \<Longrightarrow> stats_of_results ts 0 = Inl ZeroDivisionError"
  by (auto simp: stats_of_results_def statistics_mean_def py_min_Min py_max_Max
      statistics_median_rank py_div_def)

text \<open>The body shared by both samplers, in the specification's vocabulary.\<close>

lemma sampler_body:
  "(case collect_times probe 0 (py_prefix n ds) [] of
      Inl e \<Rightarrow> Inl e
    | Inr results \<Rightarrow> stats_of_results results n) =
   (case raised (outcomes probe 0 (py_prefix n ds)) of
      Some e \<Rightarrow> Inl e
    | None \<Rightarrow> Inr (spec_stats (successful_times (outcomes probe 0 (py_prefix n ds))) n))"
proof (cases "raised (outcomes probe 0 (py_prefix n ds))")
  case (Some e)
  then show ?thesis by (simp add: collect_times_outcomes)
next
  case None
  let ?ts = "successful_times (outcomes probe 0 (py_prefix n ds))"
  have "?ts = [] \<or> n \<noteq> 0"
  proof (cases "n = 0")
    case True
    then show ?thesis by (simp add: py_prefix_zero)
  qed simp
  then show ?thesis using None by (simp add: collect_times_outcomes stats_of_results_spec)
qed

lemma test_multiple_queries_spec:
  "test_multiple_queries net domains name ip n =
   (case raised (outcomes (udp_probe net name ip) 0 (py_prefix n domains)) of
      Some e \<Rightarrow> Inl e
    | None \<Rightarrow>
        Inr (spec_stats (successful_times (outcomes (udp_probe net name ip) 0 (py_prefix n domains))) n))"
  unfolding test_multiple_queries_def by (rule sampler_body)

lemma test_server_on_domains_spec:
  "test_server_on_domains net domains name url n =
   (case raised (outcomes (doh_probe net name url) 0 (py_prefix n domains)) of
      Some e \<Rightarrow> Inl e
    | None \<Rightarrow>
        Inr (spec_stats (successful_times (outcomes (doh_probe net name url) 0 (py_prefix n domains))) n))"
  unfolding test_server_on_domains_def by (rule sampler_body)

lemma outcomes_eq_Nil [simp]: "outcomes probe i ds = [] \<longleftrightarrow> ds = []"
  by (cases ds) simp_all

lemma pyfloat_le_PInf [simp]: "x \<le> PInf"
  by (cases x) simp_all

lemma spec_stats_Nil [simp]: "spec_stats [] n = sentinel_stats"
  by (simp add: spec_stats_def)


lemma sum_list_lower: "\<forall>x\<in>set xs. a \<le> x \<Longrightarrow> a * real (length xs) \<le> sum_list xs"
  by (induction xs) (auto simp: algebra_simps)

lemma sum_list_upper: "\<forall>x\<in>set xs. x \<le> b \<Longrightarrow> sum_list xs \<le> b * real (length xs)"
  by (induction xs) (auto simp: algebra_simps)

lemma mean_bounds:
  assumes "ts \<noteq> []"
  shows "Min (set ts) \<le> sum_list ts / real (length ts)"
    and "sum_list ts / real (length ts) \<le> Max (set ts)"
proof -
  have len: "0 < real (length ts)" using assms by simp
  have "Min (set ts) * real (length ts) \<le> sum_list ts"
    by (rule sum_list_lower) simp
  then show "Min (set ts) \<le> sum_list ts / real (length ts)"
    using len by (simp add: pos_le_divide_eq)
  have "sum_list ts \<le> Max (set ts) * real (length ts)"
    by (rule sum_list_upper) simp
  then show "sum_list ts / real (length ts) \<le> Max (set ts)"
    using len by (simp add: pos_divide_le_eq)
qed

lemma sort_nth_bounds:
  assumes "i < length ts"
  shows "Min (set ts) \<le> sort ts ! i" and "sort ts ! i \<le> Max (set ts)"
proof -
  have "sort ts ! i \<in> set (sort ts)" using assms by (intro nth_mem) simp
  then have "sort ts ! i \<in> set ts" by simp
  then show "Min (set ts) \<le> sort ts ! i" and "sort ts ! i \<le> Max (set ts)" by simp_all
qed

lemma median_bounds:
  assumes "ts \<noteq> []"
  shows "Min (set ts) \<le> rank_median ts" and "rank_median ts \<le> Max (set ts)"
proof -
  have i: "length ts div 2 < length ts" "length ts div 2 - 1 < length ts"
    using assms by (simp_all add: less_imp_diff_less)
  from sort_nth_bounds[OF i(1)] sort_nth_bounds[OF i(2)]
  show "Min (set ts) \<le> rank_median ts" and "rank_median ts \<le> Max (set ts)"
    by (auto simp: rank_median_def)
qed

lemma spec_stats_order:
  assumes "ts \<noteq> []"
  shows "min_stat (spec_stats ts n) \<le> median (spec_stats ts n) \<and>
         median (spec_stats ts n) \<le> max_stat (spec_stats ts n) \<and>
         min_stat (spec_stats ts n) \<le> avg (spec_stats ts n) \<and>
         avg (spec_stats ts n) \<le> max_stat (spec_stats ts n)"
  using assms mean_bounds[OF assms] median_bounds[OF assms] by (simp add: spec_stats_def)

lemmas eval_probe = test_dns_server_def udp_probe_def udp_except_def doh_probe_def
  test_doh_server_def build_dns_query_def udp_answers_def udp_times_out_def doh_answers_def
  doh_fails_def two_domains_def eval_codec

lemmas eval_sampler = test_multiple_queries_def test_server_on_domains_def py_prefix_def
  stats_of_results_def statistics_mean_def statistics_median_def py_div_def sentinel_stats_def
  eval_probe

text \<open>
  The scenario of the specification: resolver A answers in 10 and 20 ms, resolver B
  always times out, resolver C answers once in 15 ms and fails once.
\<close>

lemma udp_sample_A:
  "test_multiple_queries (\<lambda>i. udp_answers (if i = 0 then 10 else 20)) two_domains
     (str_of ''A'') (str_of ''8.8.8.8'') 2 =
   Inr \<lparr>avg = Fin 15, min_stat = Fin 10, max_stat = Fin 20, median = Fin 15, success_rate = 100\<rparr>"
  by (simp add: eval_sampler)


lemma udp_sample_B:
  "test_multiple_queries (\<lambda>i. udp_times_out) two_domains (str_of ''B'') (str_of ''8.8.4.4'') 2 =
   Inr sentinel_stats"
  by (simp add: eval_sampler)


lemma successes_imp_count_nonzero:
  "successful_times (outcomes probe i (py_prefix n ds)) = [] \<or> n \<noteq> 0"
  by (cases "n = 0") (simp_all add: py_prefix_zero)


text \<open>The samplers with the underflow of the quotient.\<close>

lemma stats_of_results_ieee_Nil: "stats_of_results_ieee [] n = Inr sentinel_stats"
  by (simp add: stats_of_results_ieee_def)

lemma stats_of_results_ieee_Cons:
  "ts \<noteq> [] \<Longrightarrow> n \<noteq> 0 \<Longrightarrow>
   stats_of_results_ieee ts n =
     Inr ((spec_stats ts n)
            \<lparr>success_rate := underflow (real (length ts) / real_of_int n) * 100\<rparr>)"
  by (simp add: stats_of_results_ieee_def spec_stats_def statistics_mean_def py_min_Min
      py_max_Max statistics_median_rank py_div_ieee_def)

lemma no_underflow:
  assumes "ts \<noteq> []" and "n \<noteq> 0" and "\<bar>n\<bar> < 2 ^ 1075"
  shows "underflow (real (length ts) / real_of_int n) = real (length ts) / real_of_int n"
    and "real (length ts) / real_of_int n \<noteq> 0"
proof -
  have len: "1 \<le> real (length ts)" using assms(1) by (cases ts) simp_all
  have npos: "0 < \<bar>real_of_int n\<bar>" using assms(2) by simp
  have nlt: "\<bar>real_of_int n\<bar> < 2 ^ 1075"
  proof -
    have "real_of_int \<bar>n\<bar> < real_of_int (2 ^ 1075)" using assms(3) by (simp only: of_int_less_iff)
    then show ?thesis by simp
  qed
  have "1 / 2 ^ 1075 < 1 / \<bar>real_of_int n\<bar>"
    using npos nlt by (simp add: frac_less2)
  also have "\<dots> \<le> real (length ts) / \<bar>real_of_int n\<bar>"
    using len npos by (simp add: divide_right_mono)
  finally have "1 / 2 ^ 1075 < \<bar>real (length ts) / real_of_int n\<bar>" by simp
  then show "underflow (real (length ts) / real_of_int n) = real (length ts) / real_of_int n"
    by (simp add: underflow_def)
  show "real (length ts) / real_of_int n \<noteq> 0" using assms(1,2) by simp
qed

text \<open>Below the underflow bound the two versions of the summary agree.\<close>

lemma stats_of_results_ieee_agrees:
  assumes "\<bar>n\<bar> < 2 ^ 1075"
  shows "stats_of_results_ieee ts n = stats_of_results ts n"
proof (cases "ts = [] \<or> n = 0")
  case True
  then show ?thesis
    by (auto simp: stats_of_results_ieee_def stats_of_results_def py_div_ieee_def py_div_def
        split: sum.splits)
next
  case False
  then have "ts \<noteq> []" "n \<noteq> 0" by simp_all
  from stats_of_results_ieee_Cons[OF this] no_underflow(1)[OF this assms]
    stats_of_results_spec[of ts n] \<open>n \<noteq> 0\<close> \<open>ts \<noteq> []\<close>
  show ?thesis by (simp add: spec_stats_def)
qed

lemma sampler_body_ieee:
  "(case collect_times probe 0 (py_prefix n ds) [] of
      Inl e \<Rightarrow> Inl e
    | Inr results \<Rightarrow> stats_of_results_ieee results n) =
   (case raised (outcomes probe 0 (py_prefix n ds)) of
      Some e \<Rightarrow> Inl e
    | None \<Rightarrow> stats_of_results_ieee (successful_times (outcomes probe 0 (py_prefix n ds))) n)"
  by (simp add: collect_times_outcomes split: option.splits)

lemma sampler_ieee_sentinel:
  fixes probe n ds
  defines "os \<equiv> outcomes probe 0 (py_prefix n ds)"
  defines "r \<equiv> (case raised os of Some e \<Rightarrow> Inl e
                 | None \<Rightarrow> stats_of_results_ieee (successful_times os) n)"
  shows "(raised os = None \<and> successful_times os = [] \<longrightarrow> r = Inr sentinel_stats) \<and>
         (\<forall>st. r = Inr st \<and> success_rate st = 0 \<and> \<bar>n\<bar> < 2 ^ 1075 \<longrightarrow> st = sentinel_stats)"
proof (intro conjI allI impI)
  assume "raised os = None \<and> successful_times os = []"
  then show "r = Inr sentinel_stats" by (simp add: r_def stats_of_results_ieee_Nil)
next
  fix st assume a: "r = Inr st \<and> success_rate st = 0 \<and> \<bar>n\<bar> < 2 ^ 1075"
  then have st: "stats_of_results_ieee (successful_times os) n = Inr st"
    by (auto simp: r_def split: option.splits)
  show "st = sentinel_stats"
  proof (cases "successful_times os = []")
    case True
    with st show ?thesis by (simp add: stats_of_results_ieee_Nil)
  next
    case False
    with successes_imp_count_nonzero[of probe 0 n ds] have n: "n \<noteq> 0" by (simp add: os_def)
    from a have b: "\<bar>n\<bar> < 2 ^ 1075" by simp
    from st stats_of_results_ieee_Cons[OF False n] no_underflow[OF False n b] a
    show ?thesis by auto
  qed
qed

lemma test_multiple_queries_ieee_body:
  "test_multiple_queries_ieee net domains name ip n =
   (case raised (outcomes (udp_probe net name ip) 0 (py_prefix n domains)) of
      Some e \<Rightarrow> Inl e
    | None \<Rightarrow>
        stats_of_results_ieee
          (successful_times (outcomes (udp_probe net name ip) 0 (py_prefix n domains))) n)"
  unfolding test_multiple_queries_ieee_def by (rule sampler_body_ieee)

lemma test_server_on_domains_ieee_body:
  "test_server_on_domains_ieee net domains name url n =
   (case raised (outcomes (doh_probe net name url) 0 (py_prefix n domains)) of
      Some e \<Rightarrow> Inl e
    | None \<Rightarrow>
        stats_of_results_ieee
          (successful_times (outcomes (doh_probe net name url) 0 (py_prefix n domains))) n)"
  unfolding test_server_on_domains_ieee_def by (rule sampler_body_ieee)

lemma samplers_ieee_agree:
  assumes "\<bar>n\<bar> < 2 ^ 1075"
  shows "test_multiple_queries_ieee unet domains server_name server_ip n =
           test_multiple_queries unet domains server_name server_ip n"
    and "test_server_on_domains_ieee dnet domains name url n =
           test_server_on_domains dnet domains name url n"
  by (simp_all add: test_multiple_queries_ieee_def test_multiple_queries_def
      test_server_on_domains_ieee_def test_server_on_domains_def
      stats_of_results_ieee_agrees[OF assms] cong: sum.case_cong)

lemma py_prefix_all: "int (length xs) \<le> n \<Longrightarrow> py_prefix n xs = xs"
  by (simp add: py_prefix_def)

lemma underflow_example: "underflow (2 / real_of_int (2 ^ 1080)) = 0"
proof -
  have "(2::real) / 2 ^ 1080 = 1 / 2 ^ 1079"
    by (simp add: power_Suc [symmetric] del: power_Suc)
  moreover have "(1::real) / 2 ^ 1079 \<le> 1 / 2 ^ 1075"
    by (intro divide_left_mono power_increasing) simp_all
  ultimately show ?thesis by (simp add: underflow_def)
qed

lemma underflow_huge_count:
  "underflow (2 / real_of_int huge_count) = 0" "huge_count \<noteq> 0"
  using underflow_example by (simp_all add: huge_count_def)

lemma long_label_raises: "create_dns_query long_label = Inl StructError"
  unfolding long_label_def by (rule create_dns_query_long_label_example)

lemma udp_probe_long_label:
  "udp_probe (\<lambda>i. udp_answers 10) (str_of ''A'') (str_of ''8.8.8.8'') i long_label =
     Inl StructError"
  by (simp add: udp_probe_def test_dns_server_def udp_answers_def udp_except_def
      long_label_raises)

lemma udp_probe_bing:
  "udp_probe (\<lambda>i. udp_answers 10) (str_of ''A'') (str_of ''8.8.8.8'') i (str_of ''bing.com'') =
     Inr (Fin 10)"
  by (simp add: eval_probe)

lemma sampler_order:
  assumes "(case raised os of Some e \<Rightarrow> Inl e
            | None \<Rightarrow> Inr (spec_stats (successful_times os) n)) = Inr st"
    and "0 < success_rate st"
  shows "min_stat st \<le> median st \<and> median st \<le> max_stat st \<and>
         min_stat st \<le> avg st \<and> avg st \<le> max_stat st"
proof -
  from assms(1) have st: "st = spec_stats (successful_times os) n"
    by (auto split: option.splits)
  with assms(2) have "successful_times os \<noteq> []" by (auto simp: sentinel_stats_def)
  from spec_stats_order[OF this] show ?thesis unfolding st .
qed

text \<open>
  Claim C2, as the code has it. For every endpoint, domain list and sample count
  \<open>n \<ge> 0\<close>, in a run in which no probe raises an exception, each sampler probes the
  first \<open>n\<close> domains in order and returns the statistics of exactly the successful
  elapsed times: the sentinel when there are none, and else their arithmetic mean,
  minimum, maximum and rank-based median, with the success rate over the requested
  count. What a sampler does when a probe raises is not part of this statement.
\<close>

theorem samplers_compute_stats:
  assumes "0 \<le> n"
  shows "(raised (outcomes (udp_probe unet server_name server_ip) 0 (first_n n domains)) = None \<longrightarrow>
          test_multiple_queries unet domains server_name server_ip n =
            Inr (spec_stats
                  (successful_times
                    (outcomes (udp_probe unet server_name server_ip) 0 (first_n n domains))) n)) \<and>
         (raised (outcomes (doh_probe dnet name url) 0 (first_n n domains)) = None \<longrightarrow>
          test_server_on_domains dnet domains name url n =
            Inr (spec_stats
                  (successful_times (outcomes (doh_probe dnet name url) 0 (first_n n domains))) n))"
  unfolding test_multiple_queries_spec test_server_on_domains_spec py_prefix_nonneg [OF assms]
  by simp

theorem samplers_compute_stats_witness:
  "test_multiple_queries (\<lambda>i. udp_answers (if i = 0 then 10 else 20)) two_domains
     (str_of ''A'') (str_of ''8.8.8.8'') 2 =
     Inr \<lparr>avg = Fin 15, min_stat = Fin 10, max_stat = Fin 20, median = Fin 15,
          success_rate = 100\<rparr> \<and>
   test_server_on_domains (\<lambda>i. if i = 0 then doh_answers 15 else doh_fails) two_domains
     (str_of ''C'') (str_of ''https://1.1.1.1/dns-query'') 2 =
     Inr \<lparr>avg = Fin 15, min_stat = Fin 15, max_stat = Fin 15, median = Fin 15,
          success_rate = 50\<rparr>"
proof -
  have z: "(0::int) \<le> 2" by simp
  have u: "raised (outcomes (udp_probe (\<lambda>i. udp_answers (if i = 0 then 10 else 20))
              (str_of ''A'') (str_of ''8.8.8.8'')) 0 (first_n 2 two_domains)) = None"
    by (simp add: first_n_def eval_probe)
  have d: "raised (outcomes (doh_probe (\<lambda>i. if i = 0 then doh_answers 15 else doh_fails)
              (str_of ''C'') (str_of ''https://1.1.1.1/dns-query'')) 0 (first_n 2 two_domains)) =
            None"
    by (simp add: first_n_def eval_probe)
  note t = samplers_compute_stats [OF z]
  show ?thesis
  proof
    show "test_multiple_queries (\<lambda>i. udp_answers (if i = 0 then 10 else 20)) two_domains
       (str_of ''A'') (str_of ''8.8.8.8'') 2 =
       Inr \<lparr>avg = Fin 15, min_stat = Fin 10, max_stat = Fin 20, median = Fin 15,
            success_rate = 100\<rparr>"
      by (subst t [THEN conjunct1, THEN mp, OF u])
        (simp add: first_n_def spec_stats_def rank_median_def eval_probe)
    show "test_server_on_domains (\<lambda>i. if i = 0 then doh_answers 15 else doh_fails) two_domains
       (str_of ''C'') (str_of ''https://1.1.1.1/dns-query'') 2 =
       Inr \<lparr>avg = Fin 15, min_stat = Fin 15, max_stat = Fin 15, median = Fin 15,
            success_rate = 50\<rparr>"
      by (subst t [THEN conjunct2, THEN mp, OF d])
        (simp add: first_n_def spec_stats_def rank_median_def eval_probe)
  qed
qed

text \<open>
  Claim C2 as stated, for every sample count and every run, fails in two ways. For a
  negative count the slice \<^verbatim>\<open>test_domains[:num_queries]\<close> drops the last domains
  instead of taking none: with two domains and count \<open>-1\<close> the sampler probes the first
  domain and reports its time, although the first \<open>-1\<close> domains are no domains. And a
  probe can raise an exception that \<^verbatim>\<open>except (socket.timeout, socket.error)\<close> does not
  catch: with the domains \<^verbatim>\<open>'bing.com'\<close> and a label of 256 characters and count 2,
  the first probe succeeds in 10 ms, the second raises \<^verbatim>\<open>struct.error\<close>, and the
  sampler returns no statistics.
\<close>

theorem samplers_compute_stats_counterexample:
  "test_multiple_queries (\<lambda>i. udp_answers 10) two_domains (str_of ''A'') (str_of ''8.8.8.8'') (- 1) =
     Inr \<lparr>avg = Fin 10, min_stat = Fin 10, max_stat = Fin 10, median = Fin 10,
          success_rate = - 100\<rparr> \<and>
   first_n (- 1) two_domains = [] \<and>
   udp_probe (\<lambda>i. udp_answers 10) (str_of ''A'') (str_of ''8.8.8.8'') 0 (str_of ''bing.com'') =
     Inr (Fin 10) \<and>
   test_multiple_queries (\<lambda>i. udp_answers 10) [str_of ''bing.com'', long_label] (str_of ''A'')
     (str_of ''8.8.8.8'') 2 = Inl StructError"
proof (intro conjI)
  show "test_multiple_queries (\<lambda>i. udp_answers 10) two_domains (str_of ''A'') (str_of ''8.8.8.8'')
      (- 1) =
     Inr \<lparr>avg = Fin 10, min_stat = Fin 10, max_stat = Fin 10, median = Fin 10,
          success_rate = - 100\<rparr>"
    by (simp add: eval_sampler)
  show "first_n (- 1) two_domains = []"
    by (simp add: first_n_def)
  show "udp_probe (\<lambda>i. udp_answers 10) (str_of ''A'') (str_of ''8.8.8.8'') 0 (str_of ''bing.com'') =
     Inr (Fin 10)"
    by (rule udp_probe_bing)
  show "test_multiple_queries (\<lambda>i. udp_answers 10) [str_of ''bing.com'', long_label] (str_of ''A'')
     (str_of ''8.8.8.8'') 2 = Inl StructError"
    by (simp add: test_multiple_queries_def py_prefix_def udp_probe_bing udp_probe_long_label)
qed




text \<open>
  Claim C3, as the code has it, with the underflow of the quotient written out. In a run
  in which no probe raises an exception and none succeeds, each sampler returns the
  sentinel, whose four latency fields are infinite and whose success rate is 0; every
  statistics record a sampler returns with success rate 0, for a count below
  \<open>2 ^ 1075\<close> in magnitude, has its four latency fields infinite; and no
  average is above the sentinel's, so it sorts last in a ranking by average. What a
  sampler does when a probe raises is not part of this statement.
\<close>

theorem zero_success_sentinel:
  "(raised (outcomes (udp_probe unet server_name server_ip) 0 (py_prefix n domains)) = None \<and>
    successful_times (outcomes (udp_probe unet server_name server_ip) 0 (py_prefix n domains)) = [] \<longrightarrow>
      test_multiple_queries_ieee unet domains server_name server_ip n = Inr sentinel_stats) \<and>
   (raised (outcomes (doh_probe dnet name url) 0 (py_prefix n domains)) = None \<and>
    successful_times (outcomes (doh_probe dnet name url) 0 (py_prefix n domains)) = [] \<longrightarrow>
      test_server_on_domains_ieee dnet domains name url n = Inr sentinel_stats) \<and>
   (\<forall>st. (test_multiple_queries_ieee unet domains server_name server_ip n = Inr st \<or>
          test_server_on_domains_ieee dnet domains name url n = Inr st) \<and>
         success_rate st = 0 \<and> \<bar>n\<bar> < 2 ^ 1075 \<longrightarrow>
      avg st = PInf \<and> min_stat st = PInf \<and> max_stat st = PInf \<and> median st = PInf) \<and>
   avg sentinel_stats = PInf \<and> min_stat sentinel_stats = PInf \<and>
   max_stat sentinel_stats = PInf \<and> median sentinel_stats = PInf \<and>
   success_rate sentinel_stats = 0 \<and>
   (\<forall>s. avg s \<le> avg sentinel_stats)"
proof -
  note u = sampler_ieee_sentinel[of "udp_probe unet server_name server_ip" n domains,
      folded test_multiple_queries_ieee_body]
  note d = sampler_ieee_sentinel[of "doh_probe dnet name url" n domains,
      folded test_server_on_domains_ieee_body]
  have s: "avg sentinel_stats = PInf \<and> min_stat sentinel_stats = PInf \<and>
   max_stat sentinel_stats = PInf \<and> median sentinel_stats = PInf \<and>
   success_rate sentinel_stats = 0" by (simp add: sentinel_stats_def)
  have "\<forall>st. (test_multiple_queries_ieee unet domains server_name server_ip n = Inr st \<or>
          test_server_on_domains_ieee dnet domains name url n = Inr st) \<and>
         success_rate st = 0 \<and> \<bar>n\<bar> < 2 ^ 1075 \<longrightarrow>
      avg st = PInf \<and> min_stat st = PInf \<and> max_stat st = PInf \<and> median st = PInf"
    using u d s by metis
  moreover have "\<forall>s. avg s \<le> avg sentinel_stats" by (simp add: sentinel_stats_def)
  ultimately show ?thesis using u d s by blast
qed

theorem zero_success_sentinel_witness:
  "test_multiple_queries_ieee (\<lambda>i. udp_times_out) two_domains (str_of ''B'') (str_of ''8.8.4.4'')
     2 = Inr sentinel_stats \<and>
   test_server_on_domains_ieee (\<lambda>i. doh_fails) two_domains (str_of ''B'')
     (str_of ''https://8.8.4.4/dns-query'') 2 = Inr sentinel_stats \<and>
   avg sentinel_stats = PInf \<and> min_stat sentinel_stats = PInf \<and>
   max_stat sentinel_stats = PInf \<and> median sentinel_stats = PInf"
proof -
  have u: "raised (outcomes (udp_probe (\<lambda>i. udp_times_out) (str_of ''B'') (str_of ''8.8.4.4'')) 0
              (py_prefix 2 two_domains)) = None \<and>
           successful_times (outcomes (udp_probe (\<lambda>i. udp_times_out) (str_of ''B'')
              (str_of ''8.8.4.4'')) 0 (py_prefix 2 two_domains)) = []"
    by (simp add: py_prefix_def eval_probe)
  have d: "raised (outcomes (doh_probe (\<lambda>i. doh_fails) (str_of ''B'')
              (str_of ''https://8.8.4.4/dns-query'')) 0 (py_prefix 2 two_domains)) = None \<and>
           successful_times (outcomes (doh_probe (\<lambda>i. doh_fails) (str_of ''B'')
              (str_of ''https://8.8.4.4/dns-query'')) 0 (py_prefix 2 two_domains)) = []"
    by (simp add: py_prefix_def eval_probe)
  have b: "\<bar>2::int\<bar> < 2 ^ 1075" by simp
  note t = zero_success_sentinel [where unet = "\<lambda>i. udp_times_out" and server_name = "str_of ''B''"
      and server_ip = "str_of ''8.8.4.4''" and name = "str_of ''B''" and n = 2
      and domains = two_domains and dnet = "\<lambda>i. doh_fails"
      and url = "str_of ''https://8.8.4.4/dns-query''"]
  from t u have 1: "test_multiple_queries_ieee (\<lambda>i. udp_times_out) two_domains (str_of ''B'')
      (str_of ''8.8.4.4'') 2 = Inr sentinel_stats" by blast
  from t d have 2: "test_server_on_domains_ieee (\<lambda>i. doh_fails) two_domains (str_of ''B'')
     (str_of ''https://8.8.4.4/dns-query'') 2 = Inr sentinel_stats" by blast
  have 3: "success_rate sentinel_stats = 0" by (simp add: sentinel_stats_def)
  from t 1 3 b have "avg sentinel_stats = PInf \<and> min_stat sentinel_stats = PInf \<and>
     max_stat sentinel_stats = PInf \<and> median sentinel_stats = PInf" by blast
  with 1 2 show ?thesis by blast
qed

text \<open>
  Claim C3 as stated fails in two ways. A probe can raise: with one domain whose label
  has 256 characters no probe succeeds, and the sampler raises \<^verbatim>\<open>struct.error\<close>
  instead of returning the sentinel. And the quotient can underflow: with two successful
  probes and the count \<open>2 ^ 1080\<close> the success rate is \<^verbatim>\<open>0.0\<close> while the
  four latency fields are finite.
\<close>

theorem zero_success_sentinel_counterexample:
  "udp_probe (\<lambda>i. udp_answers 10) (str_of ''A'') (str_of ''8.8.8.8'') 0 long_label =
     Inl StructError \<and>
   test_multiple_queries_ieee (\<lambda>i. udp_answers 10) [long_label] (str_of ''A'')
     (str_of ''8.8.8.8'') 1 = Inl StructError \<and>
   test_server_on_domains_ieee (\<lambda>i. doh_answers 10) two_domains (str_of ''C'')
     (str_of ''https://1.1.1.1/dns-query'') huge_count =
     Inr \<lparr>avg = Fin 10, min_stat = Fin 10, max_stat = Fin 10, median = Fin 10,
          success_rate = 0\<rparr>"
proof (intro conjI)
  show "udp_probe (\<lambda>i. udp_answers 10) (str_of ''A'') (str_of ''8.8.8.8'') 0 long_label =
     Inl StructError"
    by (rule udp_probe_long_label)
  show "test_multiple_queries_ieee (\<lambda>i. udp_answers 10) [long_label] (str_of ''A'')
     (str_of ''8.8.8.8'') 1 = Inl StructError"
    by (simp add: test_multiple_queries_ieee_def py_prefix_def udp_probe_long_label)
  have p: "py_prefix huge_count two_domains = two_domains"
    by (rule py_prefix_all) (simp add: two_domains_def huge_count_def)
  have c: "collect_times (doh_probe (\<lambda>i. doh_answers 10) (str_of ''C'')
             (str_of ''https://1.1.1.1/dns-query'')) 0 two_domains [] = Inr [10, 10]"
    by (simp add: eval_probe)
  show "test_server_on_domains_ieee (\<lambda>i. doh_answers 10) two_domains (str_of ''C'')
     (str_of ''https://1.1.1.1/dns-query'') huge_count =
     Inr \<lparr>avg = Fin 10, min_stat = Fin 10, max_stat = Fin 10, median = Fin 10,
          success_rate = 0\<rparr>"
    by (simp add: test_server_on_domains_ieee_def p c stats_of_results_ieee_def
        statistics_mean_def statistics_median_def py_div_ieee_def underflow_huge_count)
qed

text \<open>
  Claim C9. Every statistics record a sampler returns with a positive success rate has
  \<open>min \<le> median \<le> max\<close> and \<open>min \<le> avg \<le> max\<close>.
\<close>

theorem latency_fields_ordered:
  assumes "test_multiple_queries unet domains server_name server_ip n = Inr st \<or>
           test_server_on_domains dnet domains name url n = Inr st"
    and "0 < success_rate st"
  shows "min_stat st \<le> median st \<and> median st \<le> max_stat st \<and>
         min_stat st \<le> avg st \<and> avg st \<le> max_stat st"
  using assms(1)
proof
  assume "test_multiple_queries unet domains server_name server_ip n = Inr st"
  then show ?thesis
    unfolding test_multiple_queries_spec by (rule sampler_order) (rule assms(2))
next
  assume "test_server_on_domains dnet domains name url n = Inr st"
  then show ?thesis
    unfolding test_server_on_domains_spec by (rule sampler_order) (rule assms(2))
qed

theorem latency_fields_ordered_witness:
  "\<exists>st. test_multiple_queries (\<lambda>i. udp_answers (if i = 0 then 10 else 20)) two_domains
          (str_of ''A'') (str_of ''8.8.8.8'') 2 = Inr st \<and> 0 < success_rate st \<and>
        min_stat st \<le> median st \<and> median st \<le> max_stat st \<and>
        min_stat st \<le> avg st \<and> avg st \<le> max_stat st"
proof -
  let ?st = "\<lparr>avg = Fin 15, min_stat = Fin 10, max_stat = Fin 20, median = Fin 15,
              success_rate = 100\<rparr>"
  have e: "test_multiple_queries (\<lambda>i. udp_answers (if i = 0 then 10 else 20)) two_domains
          (str_of ''A'') (str_of ''8.8.8.8'') 2 = Inr ?st" by (rule udp_sample_A)
  have p: "0 < success_rate ?st" by simp
  from latency_fields_ordered [OF disjI1 [OF e] p] e p show ?thesis by blast
qed

section \<open>Properties of the UDP probe\<close>

text \<open>
  The probe leaves its socket closed exactly when it succeeded: \<^verbatim>\<open>sock.close()\<close> is
  the last statement of the \<^verbatim>\<open>try\<close> block, and the \<^verbatim>\<open>except\<close> clause returns
  without it.
\<close>

lemma socket_closed_iff_success:
  "snd (test_dns_server net server_name server_ip domain) = SockClosed \<longleftrightarrow>
   (\<exists>t. fst (test_dns_server net server_name server_ip domain) = Inr (server_name, Fin t))"
  by (auto simp: test_dns_server_def udp_except_def split: option.splits sum.splits)

text \<open>
  Claim C8 on the code: a probe whose receive times out returns
  \<^verbatim>\<open>(server_name, float('inf'))\<close> and leaves its socket open; only the successful
  probe closes it.
\<close>

theorem socket_left_open_on_timeout:
  "test_dns_server udp_times_out (str_of ''B'') (str_of ''8.8.4.4'') (str_of ''baidu.com'') =
     (Inr (str_of ''B'', PInf), SockOpen) \<and>
   test_dns_server (udp_answers 10) (str_of ''A'') (str_of ''8.8.8.8'') (str_of ''baidu.com'') =
     (Inr (str_of ''A'', Fin 10), SockClosed)"
  by (simp add: eval_probe)

section \<open>Properties of the fleet testers\<close>

lemmas eval_fleet = run_speed_test_def run_doh_def udp_faults_def doh_faults_def eval_sampler

lemma update_fresh: "k \<notin> fst ` set ps \<Longrightarrow> AList.update k v ps = ps @ [(k, v)]"
  by (induction ps) auto

lemma foldl_update_fresh:
  "distinct (map fst xs) \<Longrightarrow> fst ` set acc \<inter> fst ` set xs = {} \<Longrightarrow>
   foldl (\<lambda>results (k, a). AList.update k (h k a) results) acc xs =
     acc @ map (\<lambda>(k, a). (k, h k a)) xs"
proof (induction xs arbitrary: acc)
  case Nil
  then show ?case by simp
next
  case (Cons x xs)
  obtain k a where x: "x = (k, a)" by (cases x)
  from Cons.prems x have fresh: "k \<notin> fst ` set acc" by auto
  have "fst ` set (acc @ [(k, h k a)]) \<inter> fst ` set xs = {}"
    using Cons.prems x by auto
  with Cons.IH[of "acc @ [(k, h k a)]"] Cons.prems
  show ?case by (simp add: x update_fresh[OF fresh])
qed

lemma run_speed_test_entries:
  assumes "distinct (map fst completed)"
  shows "run_speed_test net test_domains completed num_queries =
     map (\<lambda>(server_name, server_ip).
            (server_name,
             case test_multiple_queries (net server_name) test_domains server_name server_ip
                    num_queries of
               Inr result \<Rightarrow> result
             | Inl e \<Rightarrow> sentinel_stats)) completed"
proof -
  have "run_speed_test net test_domains completed num_queries =
      foldl (\<lambda>results (server_name, server_ip). AList.update server_name
          (case test_multiple_queries (net server_name) test_domains server_name server_ip
                    num_queries of
               Inr result \<Rightarrow> result
             | Inl e \<Rightarrow> sentinel_stats) results) [] completed"
    unfolding run_speed_test_def
    by (intro arg_cong[where f = "\<lambda>f. foldl f [] completed"] ext)
      (auto split: sum.splits)
  also have "\<dots> = [] @ map (\<lambda>(server_name, server_ip).
            (server_name,
             case test_multiple_queries (net server_name) test_domains server_name server_ip
                    num_queries of
               Inr result \<Rightarrow> result
             | Inl e \<Rightarrow> sentinel_stats)) completed"
    using assms by (intro foldl_update_fresh) simp_all
  finally show ?thesis by simp
qed

lemma run_doh_names: "fst ` set (foldl (\<lambda>results (name, url).
              (case f name url of
                 Inr stats \<Rightarrow> AList.update name stats results
               | Inl e \<Rightarrow> results)) acc completed)
      = fst ` set acc \<union> {name. \<exists>url st. (name, url) \<in> set completed \<and> f name url = Inr st}"
proof (induction completed arbitrary: acc)
  case Nil
  then show ?case by simp
next
  case (Cons x xs)
  obtain name url where x: "x = (name, url)" by (cases x)
  show ?case
  proof (cases "f name url")
    case (Inl e)
    then show ?thesis using Cons.IH[of acc] x by auto
  next
    case (Inr st)
    then show ?thesis
      using Cons.IH[of "AList.update name st acc"] x
      by (auto simp: dom_update image_iff)
  qed
qed

lemma run_doh_entries:
  "fst ` set (run_doh net domains completed domain_count) =
     {name. \<exists>url st. (name, url) \<in> set completed \<and>
        test_server_on_domains (net name) domains name url domain_count = Inr st}"
  unfolding run_doh_def
  using run_doh_names[of "\<lambda>name url. test_server_on_domains (net name) domains name url domain_count"
      "[]" completed]
  by simp

text \<open>
  Claim C7 on the code: with one resolver whose task raises and one that answers,
  \<^verbatim>\<open>run\<close> of \<^verbatim>\<open>doh_ipv4.py\<close> returns a mapping without the first resolver, while
  \<^verbatim>\<open>run_speed_test\<close> of \<^verbatim>\<open>dns_ipv4.py\<close> stores the sentinel for it.
\<close>

theorem run_doh_drops_faulted_resolver:
  "run_doh (\<lambda>name i. if name = str_of ''X'' then doh_faults else doh_answers 15) two_domains
     [(str_of ''X'', str_of ''https://8.8.8.8/dns-query''),
      (str_of ''C'', str_of ''https://1.1.1.1/dns-query'')] 2 =
     [(str_of ''C'',
       \<lparr>avg = Fin 15, min_stat = Fin 15, max_stat = Fin 15, median = Fin 15,
        success_rate = 100\<rparr>)] \<and>
   run_speed_test (\<lambda>name i. if name = str_of ''X'' then udp_faults else udp_answers 15)
     two_domains [(str_of ''X'', str_of ''8.8.8.8''), (str_of ''C'', str_of ''1.1.1.1'')] 2 =
     [(str_of ''X'', sentinel_stats),
      (str_of ''C'',
       \<lparr>avg = Fin 15, min_stat = Fin 15, max_stat = Fin 15, median = Fin 15,
        success_rate = 100\<rparr>)]"
  by (simp add: eval_fleet)

section \<open>Properties of the report rankers\<close>

lemma print_summary_table:
  "table (print_summary results) =
     take 10 (sort_key (\<lambda>x. avg (snd x))
       (filter (\<lambda>(k, v). avg v \<noteq> PInf \<and> success_rate v > 0) results))"
  by (simp add: print_summary_def Let_def)

lemma print_summary_doh_table:
  "table (print_summary_doh results) =
     sort_key (\<lambda>x. avg (snd x)) (filter (\<lambda>(k, v). avg v \<noteq> PInf) results)"
  by (simp add: print_summary_doh_def Let_def)

lemma print_summary_ranked:
  "sorted (map (\<lambda>x. avg (snd x)) (table (print_summary results))) \<and>
   (\<forall>(k, v)\<in>set (table (print_summary results)). avg v \<noteq> PInf \<and> 0 < success_rate v) \<and>
   length (table (print_summary results)) \<le> 10"
proof (intro conjI)
  show "sorted (map (\<lambda>x. avg (snd x)) (table (print_summary results)))"
    unfolding print_summary_table by (simp add: take_map [symmetric])
  show "\<forall>(k, v)\<in>set (table (print_summary results)). avg v \<noteq> PInf \<and> 0 < success_rate v"
    unfolding print_summary_table by (auto dest!: in_set_takeD)
  show "length (table (print_summary results)) \<le> 10"
    unfolding print_summary_table by simp
qed

lemma print_summary_doh_ranked:
  "sorted (map (\<lambda>x. avg (snd x)) (table (print_summary_doh results))) \<and>
   (\<forall>(k, v)\<in>set (table (print_summary_doh results)). avg v \<noteq> PInf) \<and>
   (\<forall>a. filter (\<lambda>x. avg (snd x) = a) (table (print_summary_doh results)) =
        filter (\<lambda>x. avg (snd x) = a) (filter (\<lambda>(k, v). avg v \<noteq> PInf) results))"
  unfolding print_summary_doh_table by (auto simp: sort_key_stable)

text \<open>
  Claim C5 on the code: the ranker of \<^verbatim>\<open>doh_ipv4.py\<close> tests the average only, so it
  ranks an entry with a finite average and success rate 0, which the ranker of
  \<^verbatim>\<open>dns_ipv4.py\<close> excludes.
\<close>

theorem print_summary_doh_keeps_zero_rate:
  "print_summary_doh [(str_of ''X'', finite_zero_rate)] =
     \<lparr>table = [(str_of ''X'', finite_zero_rate)], best = Some (str_of ''X'', finite_zero_rate)\<rparr> \<and>
   print_summary [(str_of ''X'', finite_zero_rate)] = \<lparr>table = [], best = None\<rparr>"
  by (simp add: print_summary_doh_def print_summary_def finite_zero_rate_def)

end
